theory Spec2Isabelle
  imports Main
begin

section \<open>Data model (shared/schema.ts)\<close>

text \<open>
  Monetary columns are \<open>decimal(10, 2)\<close> and travel as strings such as \<open>"12.50"\<close>; the
  handlers read them with \<open>parseFloat\<close>, add and multiply them as doubles and write them
  back with \<open>toFixed(2)\<close>. The model keeps every amount as an integer number of
  hundredths: as long as the amounts stay in the range of the column, the doubles of the
  handlers round to the exact decimal result. The one comparison of doubles that is not
  rounded, the tolerance of the split bill, is treated where it occurs. Identifiers are
  the identity columns of the tables. The status columns are PostgreSQL enums that the
  handlers see as strings, so they are strings here, with the admissible values listed
  as in the schema. Columns that no handler of the order and payment routes reads
  (names, timestamps, the organization) are left out.
\<close>

type_synonym money = int

definition tableStatusEnum :: "string list" where
  "tableStatusEnum = [''free'', ''occupied'', ''reserved'']"

definition orderStatusEnum :: "string list" where
  "orderStatusEnum = [''pending'', ''confirmed'', ''completed'', ''cancelled'']"

definition orderItemStatusEnum :: "string list" where
  "orderItemStatusEnum =
     [''queued'', ''preparing'', ''almost_ready'', ''ready'', ''delivered'', ''cancelled'']"

definition paymentMethodEnum :: "string list" where
  "paymentMethodEnum = [''cash'', ''card'']"

record table_row =
  t_id :: nat
  t_status :: string

record menu_item =
  mi_id :: nat
  mi_price :: money

record order_row =
  o_id :: nat
  o_tableId :: nat
  o_status :: string
  o_total :: money

record order_item =
  oi_id :: nat
  oi_orderId :: nat
  oi_menuItemId :: nat
  oi_quantity :: int
  oi_notes :: "string option"
  oi_status :: string
  oi_price :: money

record payment =
  p_id :: nat
  p_orderId :: nat
  p_tableId :: nat
  p_amount :: money
  p_method :: string

record bill_share =
  bs_id :: nat
  bs_paymentId :: nat
  bs_customerName :: string
  bs_amount :: money
  bs_paid :: bool

text \<open>
  The relational store: one list of rows per table, and the next value of each identity
  column the handlers insert into.
\<close>

record db =
  tables :: "table_row list"
  menuItems :: "menu_item list"
  orders :: "order_row list"
  orderItems :: "order_item list"
  payments :: "payment list"
  billShares :: "bill_share list"
  nextOrderId :: nat
  nextOrderItemId :: nat
  nextPaymentId :: nat
  nextBillShareId :: nat

text \<open>An order as \<open>storage.getOrderById\<close> returns it: the row with its items and table.\<close>

record hydrated_order =
  h_order :: order_row
  h_orderItems :: "order_item list"
  h_table :: "table_row option"

section \<open>Responses, messages and the event trace\<close>

text \<open>
  The \<open>error\<close> field of an error envelope. \<open>Text\<close> carries a literal of the source; the
  three share messages are the template strings of the split-bill handler with their
  interpolated values; \<open>DbError\<close> is the message of an error thrown by the database driver
  (it names the violated constraint) and \<open>ZodError\<close> that of a failed schema parse.
\<close>

datatype message =
    Text string
  | ShareCustomerNameRequired nat
  | ShareAmountMustBePositive nat
  | SharesTotalMismatch money money
  | DbError string
  | ZodError string

datatype body =
    ErrorBody message
  | OrderBody "hydrated_order option"
  | ItemBody "order_item option"
  | PaymentBody payment
  | SplitBillBody payment "bill_share list"
  | SuccessBody

datatype response = Response nat body

datatype payload =
    OrderData "hydrated_order option"
  | ItemOrderData order_item "hydrated_order option"
  | PaymentProcessedData payment nat nat bool
  | SplitBillCompletedData nat nat nat

text \<open>
  What a handler does besides answering, in the order in which it happens: the messages
  handed to \<open>broadcast\<close>, and the begin and the outcome of a database transaction.
\<close>

datatype event =
    Broadcast string payload
  | TxBegin
  | TxCommit
  | TxRollback



section \<open>Persistence gateway\<close>

text \<open>
  Modelled from the spec: the module \<open>server/storage.ts\<close> is not part of the sources at
  hand. The spec describes it as typed insert, point lookup, filtered query and update by
  id over the relational store, with no logic beyond the constraints of the schema
  (foreign keys, uniqueness, enum columns). An insert takes the next identity value; an
  update by id returns the updated row, or nothing when no row has that id. The lookups
  by id follow; \<open>getOrderById\<close> returns the order with its items and its table.
\<close>

definition getTableById :: "nat \<Rightarrow> db \<Rightarrow> table_row option" where
  "getTableById tid d = find (\<lambda>t. t_id t = tid) (tables d)"

definition getMenuItemById :: "nat \<Rightarrow> db \<Rightarrow> menu_item option" where
  "getMenuItemById mid d = find (\<lambda>m. mi_id m = mid) (menuItems d)"

definition getOrderRowById :: "nat \<Rightarrow> db \<Rightarrow> order_row option" where
  "getOrderRowById oid d = find (\<lambda>r. o_id r = oid) (orders d)"

definition getOrderItemById :: "nat \<Rightarrow> db \<Rightarrow> order_item option" where
  "getOrderItemById iid d = find (\<lambda>i. oi_id i = iid) (orderItems d)"

definition getOrderById :: "nat \<Rightarrow> db \<Rightarrow> hydrated_order option" where
  "getOrderById oid d =
     (case getOrderRowById oid d of
        None \<Rightarrow> None
      | Some r \<Rightarrow>
          Some \<lparr> h_order = r,
                 h_orderItems = filter (\<lambda>i. oi_orderId i = oid) (orderItems d),
                 h_table = getTableById (o_tableId r) d \<rparr>)"

text \<open>
  Modelled from the spec: \<open>storage.createOrder\<close> is not in the sources. It inserts the
  row; by the schema \<open>orders.table_id\<close> references \<open>tables.id\<close> and the status is an
  enum, so the insert throws when the table does not exist or the status is not admissible.
\<close>

definition storage_createOrder :: "nat \<Rightarrow> string \<Rightarrow> money \<Rightarrow> db \<Rightarrow> message + (order_row \<times> db)" where
  "storage_createOrder tableId status tot d =
     (if getTableById tableId d = None then Inl (DbError ''orders_table_id_fkey'')
      else if status \<notin> set orderStatusEnum then Inl (DbError ''order_status'')
      else
        let order = \<lparr> o_id = nextOrderId d, o_tableId = tableId,
                      o_status = status, o_total = tot \<rparr>
        in Inr (order, d\<lparr> orders := orders d @ [order], nextOrderId := Suc (nextOrderId d) \<rparr>))"

text \<open>
  Modelled from the spec: \<open>storage.createOrderItem\<close> is not in the sources. The order
  handler calls it for an order it has just inserted and a menu item it has just looked
  up, with the status \<open>queued\<close>, so no constraint of the schema can fail there.
\<close>

definition storage_createOrderItem ::
  "nat \<Rightarrow> nat \<Rightarrow> int \<Rightarrow> string option \<Rightarrow> string \<Rightarrow> money \<Rightarrow> db \<Rightarrow> db" where
  "storage_createOrderItem orderId menuItemId quantity notes status price d =
     d\<lparr> orderItems := orderItems d @
           [\<lparr> oi_id = nextOrderItemId d, oi_orderId = orderId, oi_menuItemId = menuItemId,
              oi_quantity = quantity, oi_notes = notes, oi_status = status,
              oi_price = price \<rparr>],
        nextOrderItemId := Suc (nextOrderItemId d) \<rparr>"

text \<open>
  Modelled from the spec: \<open>storage.updateOrderTotal\<close>, \<open>storage.updateOrderStatus\<close> and
  \<open>storage.updateTableStatus\<close> are not in the sources; each is an update by id, called
  by the handlers with literal statuses of the enums.
\<close>

definition updateOrderTotal :: "nat \<Rightarrow> money \<Rightarrow> db \<Rightarrow> db" where
  "updateOrderTotal oid tot d =
     d\<lparr> orders := map (\<lambda>r. if o_id r = oid then r\<lparr> o_total := tot \<rparr> else r) (orders d) \<rparr>"

definition updateOrderStatus :: "nat \<Rightarrow> string \<Rightarrow> db \<Rightarrow> order_row option \<times> db" where
  "updateOrderStatus oid status d =
     (let d' = d\<lparr> orders :=
                  map (\<lambda>r. if o_id r = oid then r\<lparr> o_status := status \<rparr> else r) (orders d) \<rparr>
      in (getOrderRowById oid d', d'))"

definition updateTableStatus :: "nat \<Rightarrow> string \<Rightarrow> db \<Rightarrow> db" where
  "updateTableStatus tid status d =
     d\<lparr> tables := map (\<lambda>t. if t_id t = tid then t\<lparr> t_status := status \<rparr> else t) (tables d) \<rparr>"

text \<open>
  Modelled from the spec: \<open>storage.updateOrderItemStatus\<close> is not in the sources. The
  status column is the enum \<open>order_item_status\<close> of the schema, so a value outside it
  makes the statement fail, whether or not a row has the id.
\<close>

definition storage_updateOrderItemStatus ::
  "nat \<Rightarrow> string \<Rightarrow> db \<Rightarrow> message + (order_item option \<times> db)" where
  "storage_updateOrderItemStatus iid status d =
     (if status \<notin> set orderItemStatusEnum then Inl (DbError ''order_item_status'')
      else
        let d' = d\<lparr> orderItems :=
                     map (\<lambda>i. if oi_id i = iid then i\<lparr> oi_status := status \<rparr> else i)
                       (orderItems d) \<rparr>
        in Inr (getOrderItemById iid d', d'))"

section \<open>Order lifecycle: the route handlers\<close>

text \<open>An item of the request body of \<open>POST /api/orders\<close>; the quantity is an integer, as
  the column it is stored in.\<close>

record request_item =
  ri_menuItemId :: nat
  ri_quantity :: int
  ri_notes :: "string option"

text \<open>
  The loop of \<open>POST /api/orders\<close> over the requested items: an item whose menu item is
  not found is skipped (\<open>continue\<close>); otherwise an order item is inserted with the menu
  item's current price and \<open>price * quantity\<close> is added to the running total.
\<close>

fun addOrderItems :: "nat \<Rightarrow> request_item list \<Rightarrow> money \<Rightarrow> db \<Rightarrow> money \<times> db" where
  "addOrderItems orderId [] tot d = (tot, d)"
| "addOrderItems orderId (item # items) tot d =
     (case getMenuItemById (ri_menuItemId item) d of
        None \<Rightarrow> addOrderItems orderId items tot d
      | Some menuItem \<Rightarrow>
          addOrderItems orderId items (tot + mi_price menuItem * ri_quantity item)
            (storage_createOrderItem orderId (ri_menuItemId item) (ri_quantity item)
               (ri_notes item) ''queued'' (mi_price menuItem) d))"

text \<open>\<open>POST /api/orders\<close>. Any exception is answered with status 400.\<close>

definition post_orders :: "nat \<Rightarrow> request_item list \<Rightarrow> db \<Rightarrow> response \<times> db \<times> event list" where
  "post_orders tableId items d =
     (case storage_createOrder tableId ''pending'' 0 d of
        Inl e \<Rightarrow> (Response 400 (ErrorBody e), d, [])
      | Inr (order, d1) \<Rightarrow>
          (case addOrderItems (o_id order) items 0 d1 of
             (tot, d2) \<Rightarrow>
               let d3 = updateOrderTotal (o_id order) tot d2;
                   d4 = updateTableStatus tableId ''occupied'' d3;
                   completeOrder = getOrderById (o_id order) d4
               in (Response 201 (OrderBody completeOrder), d4,
                   [Broadcast ''order_created'' (OrderData completeOrder)])))"

text \<open>\<open>PATCH /api/orders/:id/confirm\<close>.\<close>

definition patch_order_confirm :: "nat \<Rightarrow> db \<Rightarrow> response \<times> db \<times> event list" where
  "patch_order_confirm oid d =
     (case updateOrderStatus oid ''confirmed'' d of
        (None, d1) \<Rightarrow> (Response 404 (ErrorBody (Text ''Order not found'')), d1, [])
      | (Some order, d1) \<Rightarrow>
          let completeOrder = getOrderById (o_id order) d1
          in (Response 200 (OrderBody completeOrder), d1,
              [Broadcast ''order_confirmed'' (OrderData completeOrder)]))"

text \<open>
  \<open>PATCH /api/orders/:orderId/items/:itemId/status\<close>. The status of the request body goes
  to the store unchecked; an exception is answered with status 500.
\<close>

definition readyLike :: "order_item \<Rightarrow> bool" where
  "readyLike i =
     (oi_status i = ''ready'' \<or> oi_status i = ''delivered'' \<or> oi_status i = ''cancelled'')"

definition patch_order_item_status ::
  "nat \<Rightarrow> nat \<Rightarrow> string \<Rightarrow> db \<Rightarrow> response \<times> db \<times> event list" where
  "patch_order_item_status orderId itemId status d =
     (case storage_updateOrderItemStatus itemId status d of
        Inl e \<Rightarrow> (Response 500 (ErrorBody e), d, [])
      | Inr (None, d1) \<Rightarrow> (Response 404 (ErrorBody (Text ''Order item not found'')), d1, [])
      | Inr (Some item, d1) \<Rightarrow>
          let order = getOrderById orderId d1 in
          (Response 200 (ItemBody (Some item)), d1,
           Broadcast ''order_item_status_updated'' (ItemOrderData item order) #
           (case order of
              None \<Rightarrow> []
            | Some ord \<Rightarrow>
                if status = ''ready'' \<and> list_all readyLike (h_orderItems ord)
                then [Broadcast ''order_ready'' (OrderData order)] else [])))"

text \<open>
  \<open>PATCH /api/orders/:orderId/items/:itemId/cancel\<close>. The item is looked up by
  \<open>itemId\<close>, the order whose total is recomputed by \<open>orderId\<close>.
\<close>

definition patch_order_item_cancel :: "nat \<Rightarrow> nat \<Rightarrow> db \<Rightarrow> response \<times> db \<times> event list" where
  "patch_order_item_cancel orderId itemId d =
     (case getOrderItemById itemId d of
        None \<Rightarrow> (Response 404 (ErrorBody (Text ''Order item not found'')), d, [])
      | Some item \<Rightarrow>
          if oi_status item \<notin> set [''queued'', ''pending'']
          then (Response 400 (ErrorBody
                  (Text ''Cannot cancel item that is already being prepared or delivered'')), d, [])
          else
            (case storage_updateOrderItemStatus itemId ''cancelled'' d of
               Inl e \<Rightarrow> (Response 500 (ErrorBody e), d, [])
             | Inr (updatedItem, d1) \<Rightarrow>
                 (case getOrderById orderId d1 of
                    None \<Rightarrow> (Response 200 (ItemBody updatedItem), d1, [])
                  | Some order \<Rightarrow>
                      let activeItems =
                            filter (\<lambda>i. oi_status i \<noteq> ''cancelled'') (h_orderItems order);
                          tot = foldl (\<lambda>acc i. acc + oi_price i * oi_quantity i) 0 activeItems;
                          d2 = updateOrderTotal (o_id (h_order order)) tot d1;
                          updatedOrder = getOrderById (o_id (h_order order)) d2
                      in (Response 200 (ItemBody updatedItem), d2,
                          [Broadcast ''order_item_cancelled'' (OrderData updatedOrder)]))))"

section \<open>Payments and split bills: the route handlers\<close>

text \<open>
  \<open>insertPaymentSchema.parse\<close>: with the identifiers and the amount typed as they are here,
  what is left of the schema is that the method is one of the enum.
\<close>

definition parse_insertPayment :: "nat \<Rightarrow> nat \<Rightarrow> money \<Rightarrow> string \<Rightarrow> message + payment" where
  "parse_insertPayment orderId tableId amount method =
     (if method \<in> set paymentMethodEnum
      then Inr \<lparr> p_id = 0, p_orderId = orderId, p_tableId = tableId,
                 p_amount = amount, p_method = method \<rparr>
      else Inl (ZodError ''method''))"

text \<open>
  Inserting into \<open>payments\<close>: the order and the table referenced must exist, and
  \<open>order_id\<close> is unique. The row gets the next identity value.
\<close>

definition insert_payment :: "payment \<Rightarrow> db \<Rightarrow> message + (payment \<times> db)" where
  "insert_payment paymentData d =
     (if getOrderRowById (p_orderId paymentData) d = None
      then Inl (DbError ''payments_order_id_fkey'')
      else if getTableById (p_tableId paymentData) d = None
      then Inl (DbError ''payments_table_id_fkey'')
      else if find (\<lambda>p. p_orderId p = p_orderId paymentData) (payments d) \<noteq> None
      then Inl (DbError ''payments_order_id_unique'')
      else
        let payment = paymentData\<lparr> p_id := nextPaymentId d \<rparr>
        in Inr (payment, d\<lparr> payments := payments d @ [payment],
                              nextPaymentId := Suc (nextPaymentId d) \<rparr>))"

text \<open>
  \<open>POST /api/payments\<close>, the plain payment: the payment row is created, and unless the
  request is flagged as a split bill the order is completed and the table freed.
\<close>

definition post_payments ::
  "bool \<Rightarrow> nat \<Rightarrow> nat \<Rightarrow> money \<Rightarrow> string \<Rightarrow> db \<Rightarrow> response \<times> db \<times> event list" where
  "post_payments isSplitBill orderId tableId amount method d =
     (case parse_insertPayment orderId tableId amount method of
        Inl e \<Rightarrow> (Response 400 (ErrorBody e), d, [])
      | Inr data \<Rightarrow>
          (case insert_payment data d of
             Inl e \<Rightarrow> (Response 400 (ErrorBody e), d, [])
           | Inr (payment, d1) \<Rightarrow>
               let d3 = (if \<not> isSplitBill
                         then updateTableStatus tableId ''free''
                                (snd (updateOrderStatus orderId ''completed'' d1))
                         else d1)
               in (Response 201 (PaymentBody payment), d3,
                   [Broadcast ''payment_processed''
                      (PaymentProcessedData payment orderId tableId isSplitBill)])))"

text \<open>
  \<open>db.transaction\<close>: the callback runs on the store; when it throws, or when the commit
  that follows it fails (\<open>commit_ok\<close> is the database's answer to the commit), the store is
  left as it was and the error is rethrown. Whatever the callback hands to \<open>broadcast\<close>
  happens while the transaction is open, between \<open>TxBegin\<close> and its outcome.
\<close>

definition transaction ::
  "bool \<Rightarrow> (db \<Rightarrow> (message + 'a) \<times> db \<times> event list) \<Rightarrow> db \<Rightarrow> (message + 'a) \<times> db \<times> event list" where
  "transaction commit_ok callback d =
     (case callback d of
        (Inl e, d1, evs) \<Rightarrow> (Inl e, d, TxBegin # evs @ [TxRollback])
      | (Inr r, d1, evs) \<Rightarrow>
          if commit_ok then (Inr r, d1, TxBegin # evs @ [TxCommit])
          else (Inl (DbError ''commit''), d, TxBegin # evs @ [TxRollback]))"

text \<open>
  A share of the request body. \<open>sr_customerName\<close> is the name, empty when the field is
  missing; \<open>sr_amount\<close> is what \<open>parseFloat\<close> makes of the amount, in hundredths, \<open>None\<close>
  for \<open>NaN\<close>.
\<close>

record share_request =
  sr_customerName :: string
  sr_amount :: "money option"

definition isWhiteSpace :: "char \<Rightarrow> bool" where
  "isWhiteSpace c =
     (c \<in> set [CHR '' '', CHR 0x09, CHR 0x0A, CHR 0x0B, CHR 0x0C, CHR 0x0D])"

definition trim :: "string \<Rightarrow> string" where
  "trim s = rev (dropWhile isWhiteSpace (rev (dropWhile isWhiteSpace s)))"

text \<open>
  The callback of \<open>shares.map\<close>, with its index: the first share that has a blank name, or
  an amount that is not a number or is not positive, throws.
\<close>

fun validate_shares :: "nat \<Rightarrow> share_request list \<Rightarrow> message + (string \<times> money) list" where
  "validate_shares index [] = Inr []"
| "validate_shares index (share # rest) =
     (if sr_customerName share = [] \<or> trim (sr_customerName share) = []
      then Inl (ShareCustomerNameRequired (index + 1))
      else
        (case sr_amount share of
           None \<Rightarrow> Inl (ShareAmountMustBePositive (index + 1))
         | Some shareAmount \<Rightarrow>
             if shareAmount \<le> 0 then Inl (ShareAmountMustBePositive (index + 1))
             else
               (case validate_shares (index + 1) rest of
                  Inl e \<Rightarrow> Inl e
                | Inr validated \<Rightarrow>
                    Inr ((trim (sr_customerName share), shareAmount) # validated))))"

text \<open>
  \<open>Math.abs(sharesTotal - authoritativeTotal) > 0.01\<close>. The source compares doubles: a
  difference of two hundredths or more exceeds the tolerance and a difference of zero
  does not, but at a difference of exactly one hundredth the outcome depends on the
  rounding of the operands (\<open>30.01 - 30\<close> exceeds \<open>0.01\<close>, \<open>0.02 - 0.01\<close> does not). \<open>fp\<close>
  stands for the outcome of the double comparison in that case.
\<close>

definition exceeds_tolerance :: "(money \<Rightarrow> money \<Rightarrow> bool) \<Rightarrow> money \<Rightarrow> money \<Rightarrow> bool" where
  "exceeds_tolerance fp sharesTotal authoritativeTotal =
     (1 < \<bar>sharesTotal - authoritativeTotal\<bar> \<or>
      (\<bar>sharesTotal - authoritativeTotal\<bar> = 1 \<and> fp sharesTotal authoritativeTotal))"

text \<open>The loop that inserts one bill share per validated share, \<open>paid\<close> false.\<close>

fun insert_shares :: "nat \<Rightarrow> (string \<times> money) list \<Rightarrow> db \<Rightarrow> bill_share list \<times> db" where
  "insert_shares paymentId [] d = ([], d)"
| "insert_shares paymentId (share # rest) d =
     (let createdShare = \<lparr> bs_id = nextBillShareId d, bs_paymentId = paymentId,
                            bs_customerName = fst share, bs_amount = snd share,
                            bs_paid = False \<rparr>;
          d1 = d\<lparr> billShares := billShares d @ [createdShare],
                  nextBillShareId := Suc (nextBillShareId d) \<rparr>
      in case insert_shares paymentId rest d1 of
           (createdShares, d2) \<Rightarrow> (createdShare # createdShares, d2))"

text \<open>The transaction callback of \<open>POST /api/split-bill\<close>.\<close>

definition split_bill_tx ::
  "(money \<Rightarrow> money \<Rightarrow> bool) \<Rightarrow> nat \<Rightarrow> nat \<Rightarrow> string \<Rightarrow> share_request list \<Rightarrow> db \<Rightarrow>
     (message + (payment \<times> bill_share list)) \<times> db \<times> event list" where
  "split_bill_tx fp orderId tableId method shares d =
     (case getOrderRowById orderId d of
        None \<Rightarrow> (Inl (Text ''Order not found''), d, [])
      | Some order \<Rightarrow>
          if o_status order \<noteq> ''confirmed''
          then (Inl (Text ''Order must be confirmed to create split bill''), d, [])
          else
            let authoritativeTotal = o_total order in
            (case validate_shares 0 shares of
               Inl e \<Rightarrow> (Inl e, d, [])
             | Inr validatedShares \<Rightarrow>
                 let sharesTotal = foldl (\<lambda>acc s. acc + snd s) 0 validatedShares in
                 if exceeds_tolerance fp sharesTotal authoritativeTotal
                 then (Inl (SharesTotalMismatch sharesTotal authoritativeTotal), d, [])
                 else
                   (case parse_insertPayment orderId tableId (o_total order) method of
                      Inl e \<Rightarrow> (Inl e, d, [])
                    | Inr paymentData \<Rightarrow>
                        (case insert_payment paymentData d of
                           Inl e \<Rightarrow> (Inl e, d, [])
                         | Inr (payment, d1) \<Rightarrow>
                             (case insert_shares (p_id payment) validatedShares d1 of
                                (createdShares, d2) \<Rightarrow>
                                  (Inr (payment, createdShares), d2, []))))))"

text \<open>\<open>POST /api/split-bill\<close>. Any exception is answered with status 400.\<close>

definition post_split_bill ::
  "(money \<Rightarrow> money \<Rightarrow> bool) \<Rightarrow> bool \<Rightarrow> nat \<Rightarrow> nat \<Rightarrow> string \<Rightarrow> share_request list \<Rightarrow> db \<Rightarrow>
     response \<times> db \<times> event list" where
  "post_split_bill fp commit_ok orderId tableId method shares d =
     (if shares = []
      then (Response 400 (ErrorBody (Text ''At least one bill share is required'')), d, [])
      else
        (case transaction commit_ok (split_bill_tx fp orderId tableId method shares) d of
           (Inl e, d', evs) \<Rightarrow> (Response 400 (ErrorBody e), d', evs)
         | (Inr (payment, createdShares), d', evs) \<Rightarrow>
             (Response 201 (SplitBillBody payment createdShares), d', evs)))"

text \<open>
  The transaction callback of \<open>PATCH /api/bill-shares/:id/paid\<close>. The tests
  \<open>!updatedShare.paymentId\<close>, \<open>!payment.orderId\<close> and \<open>!payment.tableId\<close> are true of the
  number 0. The call of \<open>broadcast\<close> is inside the callback.
\<close>

definition share_paid_tx :: "nat \<Rightarrow> db \<Rightarrow> (message + unit) \<times> db \<times> event list" where
  "share_paid_tx shareId d =
     (let d1 = d\<lparr> billShares :=
                  map (\<lambda>s. if bs_id s = shareId then s\<lparr> bs_paid := True \<rparr> else s)
                    (billShares d) \<rparr>
      in case find (\<lambda>s. bs_id s = shareId) (billShares d1) of
           None \<Rightarrow> (Inl (Text ''Share not found''), d1, [])
         | Some updatedShare \<Rightarrow>
             if bs_paymentId updatedShare = 0 then (Inl (Text ''Share not found''), d1, [])
             else
               let allShares = filter (\<lambda>s. bs_paymentId s = bs_paymentId updatedShare)
                                 (billShares d1);
                   allPaid = list_all bs_paid allShares
               in if allPaid then
                    (case find (\<lambda>p. p_id p = bs_paymentId updatedShare) (payments d1) of
                       None \<Rightarrow>
                         (Inl (Text ''Payment not found or missing order/table reference''),
                          d1, [])
                     | Some payment \<Rightarrow>
                         if p_orderId payment = 0 \<or> p_tableId payment = 0
                         then (Inl (Text ''Payment not found or missing order/table reference''),
                               d1, [])
                         else
                           let d2 = d1\<lparr> orders :=
                                        map (\<lambda>r. if o_id r = p_orderId payment
                                                  then r\<lparr> o_status := ''completed'' \<rparr> else r)
                                          (orders d1) \<rparr>;
                               d3 = d2\<lparr> tables :=
                                        map (\<lambda>t. if t_id t = p_tableId payment
                                                  then t\<lparr> t_status := ''free'' \<rparr> else t)
                                          (tables d2) \<rparr>
                           in (Inr (), d3,
                               [Broadcast ''split_bill_completed''
                                  (SplitBillCompletedData (bs_paymentId updatedShare)
                                     (p_orderId payment) (p_tableId payment))]))
                  else (Inr (), d1, []))"

text \<open>\<open>PATCH /api/bill-shares/:id/paid\<close>. Any exception is answered with status 500.\<close>

definition patch_bill_share_paid :: "bool \<Rightarrow> nat \<Rightarrow> db \<Rightarrow> response \<times> db \<times> event list" where
  "patch_bill_share_paid commit_ok shareId d =
     (case transaction commit_ok (share_paid_tx shareId) d of
        (Inl e, d', evs) \<Rightarrow> (Response 500 (ErrorBody e), d', evs)
      | (Inr u, d', evs) \<Rightarrow> (Response 200 SuccessBody, d', evs))"

section \<open>Notions of the specification and example data\<close>

text \<open>A store with one free table and a menu of two items, and a request for three items,
  the second of which names no menu item.\<close>

definition example_db :: db where
  "example_db =
     \<lparr> tables = [\<lparr> t_id = 1, t_status = ''free'' \<rparr>],
       menuItems = [\<lparr> mi_id = 1, mi_price = 1000 \<rparr>, \<lparr> mi_id = 2, mi_price = 500 \<rparr>],
       orders = [], orderItems = [], payments = [], billShares = [],
       nextOrderId = 1, nextOrderItemId = 1, nextPaymentId = 1, nextBillShareId = 1 \<rparr>"


text \<open>
  What the specification says of a created order item, apart from its identifier: it
  belongs to the new order, carries the requested menu item, quantity and notes, is
  \<open>queued\<close>, and its price is the menu item's current price. A request whose menu item
  does not exist yields nothing.
\<close>

definition item_fields :: "order_item \<Rightarrow> nat \<times> nat \<times> int \<times> string option \<times> string \<times> money" where
  "item_fields i = (oi_orderId i, oi_menuItemId i, oi_quantity i, oi_notes i, oi_status i, oi_price i)"

definition snapshot :: "db \<Rightarrow> nat \<Rightarrow> request_item \<Rightarrow> (nat \<times> nat \<times> int \<times> string option \<times> string \<times> money) option" where
  "snapshot d orderId r =
     (case getMenuItemById (ri_menuItemId r) d of
        None \<Rightarrow> None
      | Some m \<Rightarrow> Some (orderId, ri_menuItemId r, ri_quantity r, ri_notes r, ''queued'', mi_price m))"

text \<open>
  The store after table 1 has ordered two of item 1 and one of item 2 and the order has been
  confirmed; the kitchen has started on the first item.
\<close>

definition ordered_db :: db where
  "ordered_db =
     \<lparr> tables = [\<lparr> t_id = 1, t_status = ''occupied'' \<rparr>],
       menuItems = [\<lparr> mi_id = 1, mi_price = 1000 \<rparr>, \<lparr> mi_id = 2, mi_price = 500 \<rparr>],
       orders = [\<lparr> o_id = 1, o_tableId = 1, o_status = ''confirmed'', o_total = 2500 \<rparr>],
       orderItems =
         [\<lparr> oi_id = 1, oi_orderId = 1, oi_menuItemId = 1, oi_quantity = 2, oi_notes = None,
            oi_status = ''preparing'', oi_price = 1000 \<rparr>,
          \<lparr> oi_id = 2, oi_orderId = 1, oi_menuItemId = 2, oi_quantity = 1, oi_notes = None,
            oi_status = ''queued'', oi_price = 500 \<rparr>],
       payments = [], billShares = [],
       nextOrderId = 2, nextOrderItemId = 3, nextPaymentId = 1, nextBillShareId = 1 \<rparr>"

text \<open>Two shares of 12.50 each for that order, and the store once they have been
  recorded as a split bill, the two shares paid or not.\<close>

definition example_shares :: "share_request list" where
  "example_shares =
     [\<lparr> sr_customerName = ''Alice'', sr_amount = Some 1250 \<rparr>,
      \<lparr> sr_customerName = '' Bob '', sr_amount = Some 1250 \<rparr>]"

definition split_db :: "bool \<Rightarrow> bool \<Rightarrow> db" where
  "split_db paid1 paid2 =
     ordered_db
       \<lparr> payments := [\<lparr> p_id = 1, p_orderId = 1, p_tableId = 1, p_amount = 2500,
                        p_method = ''cash'' \<rparr>],
         billShares :=
           [\<lparr> bs_id = 1, bs_paymentId = 1, bs_customerName = ''Alice'', bs_amount = 1250,
              bs_paid = paid1 \<rparr>,
            \<lparr> bs_id = 2, bs_paymentId = 1, bs_customerName = ''Bob'', bs_amount = 1250,
              bs_paid = paid2 \<rparr>],
         nextPaymentId := 2, nextBillShareId := 3 \<rparr>"

text \<open>
  The comparison of the share sum with the total when it is carried out exactly: a
  difference of one hundredth does not exceed the tolerance.
\<close>

definition exact_comparison :: "money \<Rightarrow> money \<Rightarrow> bool" where
  "exact_comparison sharesTotal authoritativeTotal = False"

text \<open>The store once both shares are paid, the order completed and the table freed.\<close>

definition settled_db :: db where
  "settled_db =
     (split_db True True)
       \<lparr> orders := [\<lparr> o_id = 1, o_tableId = 1, o_status = ''completed'', o_total = 2500 \<rparr>],
         tables := [\<lparr> t_id = 1, t_status = ''free'' \<rparr>] \<rparr>"

text \<open>
  The invariant of the specification: the total of every order is the sum of price times
  quantity over its items that are not cancelled.
\<close>

definition active_total :: "nat \<Rightarrow> db \<Rightarrow> money" where
  "active_total oid d =
     sum_list (map (\<lambda>i. oi_price i * oi_quantity i)
       (filter (\<lambda>i. oi_orderId i = oid \<and> oi_status i \<noteq> ''cancelled'') (orderItems d)))"

definition total_invariant :: "db \<Rightarrow> bool" where
  "total_invariant d = list_all (\<lambda>r. o_total r = active_total (o_id r) d) (orders d)"

section \<open>Properties\<close>

subsection \<open>Creating an order\<close>

lemma getMenuItemById_cong: "menuItems d' = menuItems d \<Longrightarrow> getMenuItemById m d' = getMenuItemById m d"
  by (simp add: getMenuItemById_def)

lemma snapshot_cong: "menuItems d' = menuItems d \<Longrightarrow> snapshot d' oid r = snapshot d oid r"
  by (simp add: snapshot_def getMenuItemById_def)

lemma addOrderItems_result:
  "\<exists>new. addOrderItems oid items tot d =
      (tot + sum_list (map (\<lambda>i. oi_price i * oi_quantity i) new),
       d\<lparr> orderItems := orderItems d @ new,
          nextOrderItemId := nextOrderItemId d + length new \<rparr>)
    \<and> map item_fields new = List.map_filter (snapshot d oid) items"
proof (induction items arbitrary: tot d)
  case Nil
  show ?case by (rule exI [of _ "[]"]) (simp add: List.map_filter_simps)
next
  case (Cons r rs)
  show ?case
  proof (cases "getMenuItemById (ri_menuItemId r) d")
    case None
    obtain new where
      a: "addOrderItems oid rs tot d =
        (tot + sum_list (map (\<lambda>i. oi_price i * oi_quantity i) new),
         d\<lparr> orderItems := orderItems d @ new, nextOrderItemId := nextOrderItemId d + length new \<rparr>)"
      and b: "map item_fields new = List.map_filter (snapshot d oid) rs"
      using Cons.IH [of tot d] by (elim exE conjE) (erule (1) that)
    have s: "snapshot d oid r = None" using None by (simp add: snapshot_def)
    have "addOrderItems oid (r # rs) tot d = addOrderItems oid rs tot d"
      using None by simp
    moreover have "List.map_filter (snapshot d oid) (r # rs) = List.map_filter (snapshot d oid) rs"
      using s by (simp add: List.map_filter_simps)
    ultimately show ?thesis using a b by (intro exI [of _ new]) simp
  next
    case (Some m)
    let ?i = "\<lparr> oi_id = nextOrderItemId d, oi_orderId = oid, oi_menuItemId = ri_menuItemId r,
              oi_quantity = ri_quantity r, oi_notes = ri_notes r, oi_status = ''queued'',
              oi_price = mi_price m \<rparr>"
    let ?d1 = "storage_createOrderItem oid (ri_menuItemId r) (ri_quantity r) (ri_notes r) ''queued'' (mi_price m) d"
    have m1: "menuItems ?d1 = menuItems d" by (simp add: storage_createOrderItem_def)
    obtain new where
      a: "addOrderItems oid rs (tot + mi_price m * ri_quantity r) ?d1 =
        (tot + mi_price m * ri_quantity r + sum_list (map (\<lambda>i. oi_price i * oi_quantity i) new),
         ?d1\<lparr> orderItems := orderItems ?d1 @ new, nextOrderItemId := nextOrderItemId ?d1 + length new \<rparr>)"
      and b: "map item_fields new = List.map_filter (snapshot ?d1 oid) rs"
      using Cons.IH [of "tot + mi_price m * ri_quantity r" ?d1] by (elim exE conjE) (erule (1) that)
    have c: "List.map_filter (snapshot ?d1 oid) rs = List.map_filter (snapshot d oid) rs"
      using snapshot_cong [OF m1] by (simp add: List.map_filter_def)
    have s: "snapshot d oid r = Some (item_fields ?i)"
      using Some by (simp add: snapshot_def item_fields_def)
    have e1: "addOrderItems oid (r # rs) tot d = addOrderItems oid rs (tot + mi_price m * ri_quantity r) ?d1"
      using Some by simp
    have e2: "List.map_filter (snapshot d oid) (r # rs) = item_fields ?i # List.map_filter (snapshot d oid) rs"
      using s by (simp add: List.map_filter_simps)
    have e3: "?d1\<lparr> orderItems := orderItems ?d1 @ new, nextOrderItemId := nextOrderItemId ?d1 + length new \<rparr>
            = d\<lparr> orderItems := orderItems d @ (?i # new), nextOrderItemId := nextOrderItemId d + length (?i # new) \<rparr>"
      by (simp add: storage_createOrderItem_def)
    have e4: "tot + mi_price m * ri_quantity r + sum_list (map (\<lambda>i. oi_price i * oi_quantity i) new)
            = tot + sum_list (map (\<lambda>i. oi_price i * oi_quantity i) (?i # new))"
      by simp
    show ?thesis
      apply (rule exI [of _ "?i # new"])
      apply (rule conjI)
       apply (simp only: e1 a e3 e4)
      apply (simp only: e2 list.map b c)
      done
  qed
qed


lemma map_update_fresh:
  "\<forall>r\<in>set rs. o_id r \<noteq> k \<Longrightarrow> map (\<lambda>r. if o_id r = k then f r else r) rs = rs"
  by (induction rs) auto

lemma post_orders_result:
  assumes tbl: "getTableById tableId d \<noteq> None"
    and fresh: "\<forall>r\<in>set (orders d). o_id r \<noteq> nextOrderId d"
  shows "\<exists>new d'.
      post_orders tableId items d =
        (Response 201 (OrderBody (getOrderById (nextOrderId d) d')), d',
         [Broadcast ''order_created'' (OrderData (getOrderById (nextOrderId d) d'))])
    \<and> map item_fields new = List.map_filter (snapshot d (nextOrderId d)) items
    \<and> orderItems d' = orderItems d @ new
    \<and> orders d' = orders d @
          [\<lparr> o_id = nextOrderId d, o_tableId = tableId, o_status = ''pending'',
             o_total = sum_list (map (\<lambda>i. oi_price i * oi_quantity i) new) \<rparr>]
    \<and> tables d' =
          map (\<lambda>t. if t_id t = tableId then t\<lparr> t_status := ''occupied'' \<rparr> else t) (tables d)
    \<and> menuItems d' = menuItems d \<and> payments d' = payments d \<and> billShares d' = billShares d"
proof -
  let ?o0 = "\<lparr> o_id = nextOrderId d, o_tableId = tableId, o_status = ''pending'', o_total = 0 \<rparr>"
  let ?d1 = "d\<lparr> orders := orders d @ [?o0], nextOrderId := Suc (nextOrderId d) \<rparr>"
  have sc: "storage_createOrder tableId ''pending'' 0 d = Inr (?o0, ?d1)"
    using tbl by (simp add: storage_createOrder_def orderStatusEnum_def Let_def)
  obtain new where
    add: "addOrderItems (nextOrderId d) items 0 ?d1 =
       (0 + sum_list (map (\<lambda>i. oi_price i * oi_quantity i) new),
        ?d1\<lparr> orderItems := orderItems ?d1 @ new,
            nextOrderItemId := nextOrderItemId ?d1 + length new \<rparr>)"
    and flds: "map item_fields new = List.map_filter (snapshot ?d1 (nextOrderId d)) items"
    using addOrderItems_result [of "nextOrderId d" items 0 ?d1]
    by (elim exE conjE) (erule (1) that)
  have m1: "menuItems ?d1 = menuItems d" by simp
  have flds': "map item_fields new = List.map_filter (snapshot d (nextOrderId d)) items"
    using flds snapshot_cong [OF m1] by (simp add: List.map_filter_def)
  let ?d4 = "updateTableStatus tableId ''occupied''
      (updateOrderTotal (nextOrderId d) (sum_list (map (\<lambda>i. oi_price i * oi_quantity i) new))
         (?d1\<lparr> orderItems := orderItems ?d1 @ new,
              nextOrderItemId := nextOrderItemId ?d1 + length new \<rparr>))"
  have res: "post_orders tableId items d =
        (Response 201 (OrderBody (getOrderById (nextOrderId d) ?d4)), ?d4,
         [Broadcast ''order_created'' (OrderData (getOrderById (nextOrderId d) ?d4))])"
    by (simp add: post_orders_def sc add Let_def)
  have f1: "orderItems ?d4 = orderItems d @ new"
    by (simp add: updateTableStatus_def updateOrderTotal_def)
  have f2: "orders ?d4 = orders d @
          [\<lparr> o_id = nextOrderId d, o_tableId = tableId, o_status = ''pending'',
             o_total = sum_list (map (\<lambda>i. oi_price i * oi_quantity i) new) \<rparr>]"
    by (simp add: updateTableStatus_def updateOrderTotal_def map_update_fresh [OF fresh])
  have f3: "tables ?d4 =
          map (\<lambda>t. if t_id t = tableId then t\<lparr> t_status := ''occupied'' \<rparr> else t) (tables d)"
    by (simp add: updateTableStatus_def updateOrderTotal_def)
  have f4: "menuItems ?d4 = menuItems d \<and> payments ?d4 = payments d \<and> billShares ?d4 = billShares d"
    by (simp add: updateTableStatus_def updateOrderTotal_def)
  show ?thesis
    apply (rule exI [of _ new])
    apply (rule exI [of _ ?d4])
    apply (intro conjI)
           apply (rule res)
          apply (rule flds')
         apply (rule f1)
        apply (rule f2)
       apply (rule f3)
      apply (simp_all only: f4)
    done
qed


lemma find_map_table_status:
  "find (\<lambda>t. t_id t = k) ts \<noteq> None \<Longrightarrow>
   map_option t_status
     (find (\<lambda>t. t_id t = k) (map (\<lambda>t. if t_id t = k then t\<lparr> t_status := s \<rparr> else t) ts)) = Some s"
  by (induction ts) auto

lemma find_append_fresh:
  "\<forall>r\<in>set rs. o_id r \<noteq> k \<Longrightarrow> o_id x = k \<Longrightarrow> find (\<lambda>r. o_id r = k) (rs @ [x]) = Some x"
  by (induction rs) auto

lemma filter_no_items:
  "\<forall>i\<in>set xs. oi_orderId i \<noteq> k \<Longrightarrow> filter (\<lambda>i. oi_orderId i = k) xs = []"
  by (induction xs) auto

lemma item_fields_orderId:
  "map item_fields new = List.map_filter (snapshot d k) items \<Longrightarrow> \<forall>i\<in>set new. oi_orderId i = k"
proof (induction items arbitrary: new)
  case Nil
  then show ?case by (simp add: List.map_filter_simps)
next
  case (Cons r rs)
  show ?case
  proof (cases "snapshot d k r")
    case None
    with Cons show ?thesis by (simp add: List.map_filter_simps)
  next
    case (Some f)
    with Cons.prems obtain i new' where n: "new = i # new'" and i: "item_fields i = f"
      and r: "map item_fields new' = List.map_filter (snapshot d k) rs"
      by (auto simp: List.map_filter_simps)
    from Some have "fst f = k" by (auto simp: snapshot_def split: option.splits)
    with i have "oi_orderId i = k" by (auto simp: item_fields_def)
    with Cons.IH [OF r] n show ?thesis by simp
  qed
qed

lemma post_orders_created:
  assumes tbl: "getTableById tableId d \<noteq> None"
    and fresh: "\<forall>r\<in>set (orders d). o_id r \<noteq> nextOrderId d"
    and refs: "\<forall>i\<in>set (orderItems d). oi_orderId i \<noteq> nextOrderId d"
  shows "\<exists>new d' tbl'.
      post_orders tableId items d =
        (Response 201 (OrderBody (getOrderById (nextOrderId d) d')), d',
         [Broadcast ''order_created'' (OrderData (getOrderById (nextOrderId d) d'))])
    \<and> map item_fields new = List.map_filter (snapshot d (nextOrderId d)) items
    \<and> orderItems d' = orderItems d @ new
    \<and> orders d' = orders d @
          [\<lparr> o_id = nextOrderId d, o_tableId = tableId, o_status = ''pending'',
             o_total = sum_list (map (\<lambda>i. oi_price i * oi_quantity i) new) \<rparr>]
    \<and> tables d' =
          map (\<lambda>t. if t_id t = tableId then t\<lparr> t_status := ''occupied'' \<rparr> else t) (tables d)
    \<and> getTableById tableId d' = Some tbl' \<and> t_status tbl' = ''occupied''
    \<and> getOrderById (nextOrderId d) d' =
          Some \<lparr> h_order =
                   \<lparr> o_id = nextOrderId d, o_tableId = tableId, o_status = ''pending'',
                      o_total = sum_list (map (\<lambda>i. oi_price i * oi_quantity i) new) \<rparr>,
                 h_orderItems = new, h_table = Some tbl' \<rparr>"
proof -
  obtain new d' where
    res: "post_orders tableId items d =
        (Response 201 (OrderBody (getOrderById (nextOrderId d) d')), d',
         [Broadcast ''order_created'' (OrderData (getOrderById (nextOrderId d) d'))])"
    and flds: "map item_fields new = List.map_filter (snapshot d (nextOrderId d)) items"
    and its: "orderItems d' = orderItems d @ new"
    and ords: "orders d' = orders d @
          [\<lparr> o_id = nextOrderId d, o_tableId = tableId, o_status = ''pending'',
             o_total = sum_list (map (\<lambda>i. oi_price i * oi_quantity i) new) \<rparr>]"
    and tbls: "tables d' =
          map (\<lambda>t. if t_id t = tableId then t\<lparr> t_status := ''occupied'' \<rparr> else t) (tables d)"
    using post_orders_result [OF tbl fresh, of items] by (elim exE conjE) (rule that)
  from tbl have "map_option t_status (getTableById tableId d') = Some ''occupied''"
    unfolding getTableById_def tbls by (rule find_map_table_status)
  then obtain tbl' where t1: "getTableById tableId d' = Some tbl'" and t2: "t_status tbl' = ''occupied''"
    by auto
  have row: "getOrderRowById (nextOrderId d) d' =
      Some \<lparr> o_id = nextOrderId d, o_tableId = tableId, o_status = ''pending'',
             o_total = sum_list (map (\<lambda>i. oi_price i * oi_quantity i) new) \<rparr>"
    unfolding getOrderRowById_def ords by (rule find_append_fresh [OF fresh]) simp
  have own: "filter (\<lambda>i. oi_orderId i = nextOrderId d) (orderItems d') = new"
    using filter_no_items [OF refs] item_fields_orderId [OF flds] by (simp add: its)
  have hyd: "getOrderById (nextOrderId d) d' =
          Some \<lparr> h_order =
                   \<lparr> o_id = nextOrderId d, o_tableId = tableId, o_status = ''pending'',
                      o_total = sum_list (map (\<lambda>i. oi_price i * oi_quantity i) new) \<rparr>,
                 h_orderItems = new, h_table = Some tbl' \<rparr>"
    by (simp add: getOrderById_def row own t1)
  show ?thesis
    using res flds its ords tbls t1 t2 hyd by blast
qed


lemma map_filter_all_None:
  "\<forall>r\<in>set xs. f r = None \<Longrightarrow> List.map_filter f xs = []"
  by (induction xs) (simp_all add: List.map_filter_simps)



text \<open>
  C9. When no requested item names an existing menu item (in particular when the list is
  empty), \<open>POST /api/orders\<close> does not reject: it answers 201, persists a \<open>pending\<close> order
  with total 0 (\<open>"0.00"\<close>) and no items, sets the table \<open>occupied\<close> and broadcasts
  \<open>order_created\<close>.
\<close>

theorem post_orders_without_items:
  assumes tbl: "getTableById tableId d \<noteq> None"
    and fresh: "\<forall>r\<in>set (orders d). o_id r \<noteq> nextOrderId d"
    and refs: "\<forall>i\<in>set (orderItems d). oi_orderId i \<noteq> nextOrderId d"
    and none: "\<forall>r\<in>set items. getMenuItemById (ri_menuItemId r) d = None"
  shows "\<exists>d' tbl'.
      post_orders tableId items d =
        (Response 201 (OrderBody (getOrderById (nextOrderId d) d')), d',
         [Broadcast ''order_created'' (OrderData (getOrderById (nextOrderId d) d'))])
    \<and> orderItems d' = orderItems d
    \<and> orders d' = orders d @
          [\<lparr> o_id = nextOrderId d, o_tableId = tableId, o_status = ''pending'', o_total = 0 \<rparr>]
    \<and> getTableById tableId d' = Some tbl' \<and> t_status tbl' = ''occupied''
    \<and> getOrderById (nextOrderId d) d' =
          Some \<lparr> h_order =
                   \<lparr> o_id = nextOrderId d, o_tableId = tableId, o_status = ''pending'',
                      o_total = 0 \<rparr>,
                 h_orderItems = [], h_table = Some tbl' \<rparr>"
proof -
  have "\<forall>r\<in>set items. snapshot d (nextOrderId d) r = None"
    using none by (simp add: snapshot_def)
  then have e: "List.map_filter (snapshot d (nextOrderId d)) items = []"
    by (rule map_filter_all_None)
  obtain new d' tbl' where
    res: "post_orders tableId items d =
        (Response 201 (OrderBody (getOrderById (nextOrderId d) d')), d',
         [Broadcast ''order_created'' (OrderData (getOrderById (nextOrderId d) d'))])"
    and flds: "map item_fields new = List.map_filter (snapshot d (nextOrderId d)) items"
    and its: "orderItems d' = orderItems d @ new"
    and ords: "orders d' = orders d @
          [\<lparr> o_id = nextOrderId d, o_tableId = tableId, o_status = ''pending'',
             o_total = sum_list (map (\<lambda>i. oi_price i * oi_quantity i) new) \<rparr>]"
    and t1: "getTableById tableId d' = Some tbl'" and t2: "t_status tbl' = ''occupied''"
    and hyd: "getOrderById (nextOrderId d) d' =
          Some \<lparr> h_order =
                   \<lparr> o_id = nextOrderId d, o_tableId = tableId, o_status = ''pending'',
                      o_total = sum_list (map (\<lambda>i. oi_price i * oi_quantity i) new) \<rparr>,
                 h_orderItems = new, h_table = Some tbl' \<rparr>"
    using post_orders_created [OF tbl fresh refs, of items] by (elim exE conjE) (rule that)
  from flds e have n: "new = []" by simp
  show ?thesis
    using res its ords t1 t2 hyd unfolding n by (intro exI [of _ d'] exI [of _ tbl']) simp
qed

theorem post_orders_without_items_witness:
  "(\<exists>d' tbl'.
      post_orders 1 [] example_db =
        (Response 201 (OrderBody (getOrderById (nextOrderId example_db) d')), d',
         [Broadcast ''order_created'' (OrderData (getOrderById (nextOrderId example_db) d'))])
    \<and> orderItems d' = orderItems example_db
    \<and> orders d' = orders example_db @
          [\<lparr> o_id = nextOrderId example_db, o_tableId = 1, o_status = ''pending'', o_total = 0 \<rparr>]
    \<and> getTableById 1 d' = Some tbl' \<and> t_status tbl' = ''occupied''
    \<and> getOrderById (nextOrderId example_db) d' =
          Some \<lparr> h_order =
                   \<lparr> o_id = nextOrderId example_db, o_tableId = 1, o_status = ''pending'',
                      o_total = 0 \<rparr>,
                 h_orderItems = [], h_table = Some tbl' \<rparr>)
 \<and> (\<exists>d' tbl'.
      post_orders 1 [\<lparr> ri_menuItemId = 7, ri_quantity = 3, ri_notes = None \<rparr>] example_db =
        (Response 201 (OrderBody (getOrderById (nextOrderId example_db) d')), d',
         [Broadcast ''order_created'' (OrderData (getOrderById (nextOrderId example_db) d'))])
    \<and> orderItems d' = orderItems example_db
    \<and> orders d' = orders example_db @
          [\<lparr> o_id = nextOrderId example_db, o_tableId = 1, o_status = ''pending'', o_total = 0 \<rparr>]
    \<and> getTableById 1 d' = Some tbl' \<and> t_status tbl' = ''occupied''
    \<and> getOrderById (nextOrderId example_db) d' =
          Some \<lparr> h_order =
                   \<lparr> o_id = nextOrderId example_db, o_tableId = 1, o_status = ''pending'',
                      o_total = 0 \<rparr>,
                 h_orderItems = [], h_table = Some tbl' \<rparr>)"
proof -
  have h1: "getTableById 1 example_db \<noteq> None"
    by (simp add: getTableById_def example_db_def)
  have h2: "\<forall>r\<in>set (orders example_db). o_id r \<noteq> nextOrderId example_db"
    by (simp add: example_db_def)
  have h3: "\<forall>i\<in>set (orderItems example_db). oi_orderId i \<noteq> nextOrderId example_db"
    by (simp add: example_db_def)
  have h4: "\<forall>r\<in>set []. getMenuItemById (ri_menuItemId r) example_db = None"
    by simp
  have h5: "\<forall>r\<in>set [\<lparr> ri_menuItemId = 7, ri_quantity = 3, ri_notes = None \<rparr>].
              getMenuItemById (ri_menuItemId r) example_db = None"
    by (simp add: getMenuItemById_def example_db_def)
  show ?thesis
    by (rule conjI [OF post_orders_without_items [OF h1 h2 h3 h4]
                       post_orders_without_items [OF h1 h2 h3 h5]])
qed

subsection \<open>Cancelling an item\<close>

lemma find_map_item_status:
  "find (\<lambda>i. oi_id i = k) xs = Some item \<Longrightarrow>
   find (\<lambda>i. oi_id i = k) (map (\<lambda>i. if oi_id i = k then i\<lparr> oi_status := s \<rparr> else i) xs)
     = Some (item\<lparr> oi_status := s \<rparr>)"
  by (induction xs) (auto split: if_splits)

lemma cancel_update:
  assumes "getOrderItemById itemId d = Some item"
  shows "storage_updateOrderItemStatus itemId ''cancelled'' d =
     Inr (Some (item\<lparr> oi_status := ''cancelled'' \<rparr>),
          d\<lparr> orderItems := map (\<lambda>i. if oi_id i = itemId then i\<lparr> oi_status := ''cancelled'' \<rparr> else i)
                              (orderItems d) \<rparr>)"
  using find_map_item_status [of itemId "orderItems d" item "''cancelled''"] assms
  by (simp add: storage_updateOrderItemStatus_def orderItemStatusEnum_def getOrderItemById_def Let_def)






subsection \<open>The total of an order\<close>

text \<open>
  C1. The invariant does not survive every mutation. On the example store, where it holds,
  \<open>PATCH /api/orders/1/items/2/status\<close> with the status \<open>cancelled\<close> succeeds and cancels
  the item, but the total of the order stays 25.00 while its items that are not cancelled
  sum to 20.00: the status handler never recomputes the total, which only the cancel
  handler does.
\<close>

theorem status_update_leaves_stale_total:
  "total_invariant ordered_db
   \<and> fst (patch_order_item_status 1 2 ''cancelled'' ordered_db) =
       Response 200 (ItemBody (Some
         \<lparr> oi_id = 2, oi_orderId = 1, oi_menuItemId = 2, oi_quantity = 1, oi_notes = None,
           oi_status = ''cancelled'', oi_price = 500 \<rparr>))
   \<and> map o_total (orders (fst (snd (patch_order_item_status 1 2 ''cancelled'' ordered_db)))) = [2500]
   \<and> active_total 1 (fst (snd (patch_order_item_status 1 2 ''cancelled'' ordered_db))) = 2000
   \<and> \<not> total_invariant (fst (snd (patch_order_item_status 1 2 ''cancelled'' ordered_db)))"
  by (simp add: total_invariant_def active_total_def patch_order_item_status_def
        storage_updateOrderItemStatus_def orderItemStatusEnum_def getOrderItemById_def
        getOrderById_def getOrderRowById_def getTableById_def ordered_db_def Let_def)

text \<open>
  The cancel handler itself leaves a stale total when the order named in the path is not
  the order of the item (here no order at all): the item is cancelled, and the total that
  is recomputed, if any, is that of the order named.
\<close>

lemma cancel_under_other_order_leaves_stale_total:
  "fst (patch_order_item_cancel 9 2 ordered_db) =
       Response 200 (ItemBody (Some
         \<lparr> oi_id = 2, oi_orderId = 1, oi_menuItemId = 2, oi_quantity = 1, oi_notes = None,
           oi_status = ''cancelled'', oi_price = 500 \<rparr>))
   \<and> map o_total (orders (fst (snd (patch_order_item_cancel 9 2 ordered_db)))) = [2500]
   \<and> active_total 1 (fst (snd (patch_order_item_cancel 9 2 ordered_db))) = 2000"
  by (simp add: active_total_def patch_order_item_cancel_def
        storage_updateOrderItemStatus_def orderItemStatusEnum_def getOrderItemById_def
        getOrderById_def getOrderRowById_def getTableById_def ordered_db_def Let_def)

text \<open>The status handler never writes to the orders.\<close>

lemma patch_order_item_status_keeps_orders:
  "orders (fst (snd (patch_order_item_status orderId itemId status d))) = orders d"
  by (simp add: patch_order_item_status_def storage_updateOrderItemStatus_def Let_def
        split: option.splits)

subsection \<open>Creating a split bill\<close>

lemma foldl_add_sum_list:
  "foldl (\<lambda>acc x. acc + f x) (a::int) xs = a + sum_list (map f xs)"
  by (induction xs arbitrary: a) simp_all



lemma insert_shares_frame:
  "payments (snd (insert_shares pid vs d)) = payments d
   \<and> orders (snd (insert_shares pid vs d)) = orders d
   \<and> tables (snd (insert_shares pid vs d)) = tables d
   \<and> orderItems (snd (insert_shares pid vs d)) = orderItems d
   \<and> menuItems (snd (insert_shares pid vs d)) = menuItems d"
  by (induction vs arbitrary: d) (simp_all add: Let_def split_beta)


lemma split_bill_tx_Inr:
  assumes "split_bill_tx fp orderId tableId method shares d = (Inr (payment, created), d2, evs)"
  shows "\<exists>order validated.
      getOrderRowById orderId d = Some order \<and> o_status order = ''confirmed''
    \<and> validate_shares 0 shares = Inr validated
    \<and> \<not> exceeds_tolerance fp (sum_list (map snd validated)) (o_total order)
    \<and> payment = \<lparr> p_id = nextPaymentId d, p_orderId = orderId, p_tableId = tableId,
                   p_amount = o_total order, p_method = method \<rparr>
    \<and> created = fst (insert_shares (nextPaymentId d) validated
                       (d\<lparr> payments := payments d @ [payment],
                           nextPaymentId := Suc (nextPaymentId d) \<rparr>))
    \<and> d2 = snd (insert_shares (nextPaymentId d) validated
                       (d\<lparr> payments := payments d @ [payment],
                           nextPaymentId := Suc (nextPaymentId d) \<rparr>))
    \<and> evs = []"
  using assms
  by (auto simp: split_bill_tx_def Let_def foldl_add_sum_list parse_insertPayment_def
        insert_payment_def
      split: option.splits if_splits sum.splits prod.splits)


lemma transaction_Inr:
  "transaction commit_ok callback d = (Inr r, d', evs) \<Longrightarrow>
     \<exists>evs0. callback d = (Inr r, d', evs0) \<and> commit_ok \<and> evs = TxBegin # evs0 @ [TxCommit]"
  by (auto simp: transaction_def split: prod.splits sum.splits if_splits)

lemma transaction_Inl:
  "transaction commit_ok callback d = (Inl e, d', evs) \<Longrightarrow> d' = d"
  by (auto simp: transaction_def split: prod.splits sum.splits if_splits)

lemma post_split_bill_cases:
  "(\<exists>e evs. post_split_bill fp commit_ok orderId tableId method shares d =
       (Response 400 (ErrorBody e), d, evs))
   \<or> (\<exists>payment created d' evs0. shares \<noteq> [] \<and> commit_ok
        \<and> split_bill_tx fp orderId tableId method shares d = (Inr (payment, created), d', evs0)
        \<and> post_split_bill fp commit_ok orderId tableId method shares d =
            (Response 201 (SplitBillBody payment created), d', TxBegin # evs0 @ [TxCommit]))"
proof (cases "shares = []")
  case True
  then show ?thesis by (simp add: post_split_bill_def)
next
  case False
  obtain res d' evs where
    t: "transaction commit_ok (split_bill_tx fp orderId tableId method shares) d = (res, d', evs)"
    by (cases "transaction commit_ok (split_bill_tx fp orderId tableId method shares) d") auto
  show ?thesis
  proof (cases res)
    case (Inl e)
    with t have "d' = d" by (auto dest: transaction_Inl)
    with t Inl False show ?thesis by (simp add: post_split_bill_def)
  next
    case (Inr pc)
    obtain payment created where pc: "pc = (payment, created)" by (cases pc) auto
    from t Inr pc obtain evs0 where
      "split_bill_tx fp orderId tableId method shares d = (Inr (payment, created), d', evs0)"
      "commit_ok" "evs = TxBegin # evs0 @ [TxCommit]"
      by (auto dest: transaction_Inr)
    with t Inr pc False show ?thesis by (simp add: post_split_bill_def)
  qed
qed




subsection \<open>Marking a bill share as paid\<close>

lemma find_map_share_paid:
  "find (\<lambda>s. bs_id s = k) bs = Some share \<Longrightarrow>
   find (\<lambda>s. bs_id s = k) (map (\<lambda>s. if bs_id s = k then s\<lparr> bs_paid := True \<rparr> else s) bs)
     = Some (share\<lparr> bs_paid := True \<rparr>)"
  by (induction bs) (auto split: if_splits)

lemma find_map_share_None:
  "find (\<lambda>s. bs_id s = k) bs = None \<Longrightarrow>
   find (\<lambda>s. bs_id s = k) (map (\<lambda>s. if bs_id s = k then s\<lparr> bs_paid := True \<rparr> else s) bs) = None"
  by (induction bs) (auto split: if_splits)

lemma all_paid_after_update:
  "list_all bs_paid
     (filter (\<lambda>s. bs_paymentId s = pid)
        (map (\<lambda>s. if bs_id s = k then s\<lparr> bs_paid := True \<rparr> else s) bs))
   = (\<forall>s\<in>set bs. bs_paymentId s = pid \<and> bs_id s \<noteq> k \<longrightarrow> bs_paid s)"
  by (induction bs) auto

lemma share_paid_tx_completes:
  assumes found: "find (\<lambda>s. bs_id s = shareId) (billShares d) = Some share"
    and pid: "bs_paymentId share \<noteq> 0"
    and others: "\<forall>s\<in>set (billShares d).
                   bs_paymentId s = bs_paymentId share \<and> bs_id s \<noteq> shareId \<longrightarrow> bs_paid s"
    and pay: "find (\<lambda>p. p_id p = bs_paymentId share) (payments d) = Some payment"
    and refs: "p_orderId payment \<noteq> 0" "p_tableId payment \<noteq> 0"
  shows "share_paid_tx shareId d =
     (Inr (),
      d\<lparr> billShares := map (\<lambda>s. if bs_id s = shareId then s\<lparr> bs_paid := True \<rparr> else s)
                           (billShares d),
         orders := map (\<lambda>r. if o_id r = p_orderId payment
                              then r\<lparr> o_status := ''completed'' \<rparr> else r) (orders d),
         tables := map (\<lambda>t. if t_id t = p_tableId payment
                              then t\<lparr> t_status := ''free'' \<rparr> else t) (tables d) \<rparr>,
      [Broadcast ''split_bill_completed''
         (SplitBillCompletedData (bs_paymentId share) (p_orderId payment) (p_tableId payment))])"
  using pid others pay refs
  by (simp add: share_paid_tx_def Let_def find_map_share_paid [OF found] all_paid_after_update)

lemma share_paid_tx_partial:
  assumes found: "find (\<lambda>s. bs_id s = shareId) (billShares d) = Some share"
    and pid: "bs_paymentId share \<noteq> 0"
    and other: "\<exists>s\<in>set (billShares d).
                   bs_paymentId s = bs_paymentId share \<and> bs_id s \<noteq> shareId \<and> \<not> bs_paid s"
  shows "share_paid_tx shareId d =
     (Inr (),
      d\<lparr> billShares := map (\<lambda>s. if bs_id s = shareId then s\<lparr> bs_paid := True \<rparr> else s)
                           (billShares d) \<rparr>, [])"
proof -
  from other have "\<not> (\<forall>s\<in>set (billShares d).
                   bs_paymentId s = bs_paymentId share \<and> bs_id s \<noteq> shareId \<longrightarrow> bs_paid s)"
    by blast
  then have np: "list_all bs_paid
     (filter (\<lambda>s. bs_paymentId s = bs_paymentId share)
        (map (\<lambda>s. if bs_id s = shareId then s\<lparr> bs_paid := True \<rparr> else s) (billShares d)))
     = False"
    unfolding all_paid_after_update by simp
  show ?thesis
    using pid by (simp add: share_paid_tx_def Let_def find_map_share_paid [OF found] np)
qed

lemma share_paid_tx_missing:
  assumes "find (\<lambda>s. bs_id s = shareId) (billShares d) = None"
  shows "\<exists>d1. share_paid_tx shareId d = (Inl (Text ''Share not found''), d1, [])"
  using find_map_share_None [OF assms]
  by (simp add: share_paid_tx_def Let_def)

lemma share_paid_tx_events:
  "(\<exists>e d1. share_paid_tx shareId d = (Inl e, d1, []))
   \<or> (\<exists>d1. share_paid_tx shareId d = (Inr (), d1, []))
   \<or> (\<exists>d1 pid oid tid. share_paid_tx shareId d =
         (Inr (), d1, [Broadcast ''split_bill_completed'' (SplitBillCompletedData pid oid tid)]))"
  by (simp add: share_paid_tx_def Let_def split: option.splits)

lemma patch_bill_share_paid_committed:
  "share_paid_tx shareId d = (Inr (), d1, evs) \<Longrightarrow>
   patch_bill_share_paid True shareId d = (Response 200 SuccessBody, d1, TxBegin # evs @ [TxCommit])"
  by (simp add: patch_bill_share_paid_def transaction_def)

lemma patch_bill_share_paid_commit_failed:
  "share_paid_tx shareId d = (Inr (), d1, evs) \<Longrightarrow>
   patch_bill_share_paid False shareId d =
     (Response 500 (ErrorBody (DbError ''commit'')), d, TxBegin # evs @ [TxRollback])"
  by (simp add: patch_bill_share_paid_def transaction_def)

lemma patch_bill_share_paid_thrown:
  "share_paid_tx shareId d = (Inl e, d1, evs) \<Longrightarrow>
   patch_bill_share_paid commit_ok shareId d =
     (Response 500 (ErrorBody e), d, TxBegin # evs @ [TxRollback])"
  by (simp add: patch_bill_share_paid_def transaction_def)

lemma map_paid_id:
  "\<forall>s\<in>set bs. bs_id s = k \<longrightarrow> bs_paid s \<Longrightarrow>
   map (\<lambda>s. if bs_id s = k then s\<lparr> bs_paid := True \<rparr> else s) bs = bs"
  by (induction bs) auto

lemma map_completed_id:
  "\<forall>r\<in>set rs. o_id r = k \<longrightarrow> o_status r = st \<Longrightarrow>
   map (\<lambda>r. if o_id r = k then r\<lparr> o_status := st \<rparr> else r) rs = rs"
  by (induction rs) auto

lemma map_free_id:
  "\<forall>t\<in>set ts. t_id t = k \<longrightarrow> t_status t = st \<Longrightarrow>
   map (\<lambda>t. if t_id t = k then t\<lparr> t_status := st \<rparr> else t) ts = ts"
  by (induction ts) auto

text \<open>
  C3. For a share that exists and belongs to a payment: when it is unpaid, every other
  share of its payment is paid and the payment row is there with its order and table,
  \<open>PATCH /api/bill-shares/:id/paid\<close> answers 200 and, in the one transaction it commits,
  marks the share paid, sets the payment's order \<open>completed\<close> and its table \<open>free\<close>. When
  another share of the payment is still unpaid, it answers 200 and only the paid flag of
  the share changes: orders and tables are as before. When the commit fails, the answer is
  500 and nothing at all has changed.
\<close>

theorem patch_bill_share_paid_settles:
  assumes found: "find (\<lambda>s. bs_id s = shareId) (billShares d) = Some share"
    and pid: "bs_paymentId share \<noteq> 0"
  shows "((\<not> bs_paid share
           \<and> (\<forall>s\<in>set (billShares d).
                 bs_paymentId s = bs_paymentId share \<and> bs_id s \<noteq> shareId \<longrightarrow> bs_paid s)
           \<and> find (\<lambda>p. p_id p = bs_paymentId share) (payments d) = Some payment
           \<and> p_orderId payment \<noteq> 0 \<and> p_tableId payment \<noteq> 0)
          \<longrightarrow> patch_bill_share_paid True shareId d =
               (Response 200 SuccessBody,
                d\<lparr> billShares := map (\<lambda>s. if bs_id s = shareId then s\<lparr> bs_paid := True \<rparr> else s)
                                     (billShares d),
                   orders := map (\<lambda>r. if o_id r = p_orderId payment
                                        then r\<lparr> o_status := ''completed'' \<rparr> else r) (orders d),
                   tables := map (\<lambda>t. if t_id t = p_tableId payment
                                        then t\<lparr> t_status := ''free'' \<rparr> else t) (tables d) \<rparr>,
                [TxBegin,
                 Broadcast ''split_bill_completed''
                   (SplitBillCompletedData (bs_paymentId share) (p_orderId payment)
                      (p_tableId payment)),
                 TxCommit]))
       \<and> ((\<exists>s\<in>set (billShares d).
              bs_paymentId s = bs_paymentId share \<and> bs_id s \<noteq> shareId \<and> \<not> bs_paid s)
          \<longrightarrow> patch_bill_share_paid True shareId d =
               (Response 200 SuccessBody,
                d\<lparr> billShares := map (\<lambda>s. if bs_id s = shareId then s\<lparr> bs_paid := True \<rparr> else s)
                                     (billShares d) \<rparr>,
                [TxBegin, TxCommit]))
       \<and> (\<exists>e evs. patch_bill_share_paid False shareId d = (Response 500 (ErrorBody e), d, evs))"
proof (intro conjI impI)
  assume a: "\<not> bs_paid share
           \<and> (\<forall>s\<in>set (billShares d).
                 bs_paymentId s = bs_paymentId share \<and> bs_id s \<noteq> shareId \<longrightarrow> bs_paid s)
           \<and> find (\<lambda>p. p_id p = bs_paymentId share) (payments d) = Some payment
           \<and> p_orderId payment \<noteq> 0 \<and> p_tableId payment \<noteq> 0"
  then have "share_paid_tx shareId d =
     (Inr (),
      d\<lparr> billShares := map (\<lambda>s. if bs_id s = shareId then s\<lparr> bs_paid := True \<rparr> else s)
                           (billShares d),
         orders := map (\<lambda>r. if o_id r = p_orderId payment
                              then r\<lparr> o_status := ''completed'' \<rparr> else r) (orders d),
         tables := map (\<lambda>t. if t_id t = p_tableId payment
                              then t\<lparr> t_status := ''free'' \<rparr> else t) (tables d) \<rparr>,
      [Broadcast ''split_bill_completed''
         (SplitBillCompletedData (bs_paymentId share) (p_orderId payment) (p_tableId payment))])"
    by (intro share_paid_tx_completes [OF found pid]) simp_all
  from patch_bill_share_paid_committed [OF this]
  show "patch_bill_share_paid True shareId d =
               (Response 200 SuccessBody,
                d\<lparr> billShares := map (\<lambda>s. if bs_id s = shareId then s\<lparr> bs_paid := True \<rparr> else s)
                                     (billShares d),
                   orders := map (\<lambda>r. if o_id r = p_orderId payment
                                        then r\<lparr> o_status := ''completed'' \<rparr> else r) (orders d),
                   tables := map (\<lambda>t. if t_id t = p_tableId payment
                                        then t\<lparr> t_status := ''free'' \<rparr> else t) (tables d) \<rparr>,
                [TxBegin,
                 Broadcast ''split_bill_completed''
                   (SplitBillCompletedData (bs_paymentId share) (p_orderId payment)
                      (p_tableId payment)),
                 TxCommit])"
    by simp
next
  assume "\<exists>s\<in>set (billShares d).
              bs_paymentId s = bs_paymentId share \<and> bs_id s \<noteq> shareId \<and> \<not> bs_paid s"
  from patch_bill_share_paid_committed [OF share_paid_tx_partial [OF found pid this]]
  show "patch_bill_share_paid True shareId d =
               (Response 200 SuccessBody,
                d\<lparr> billShares := map (\<lambda>s. if bs_id s = shareId then s\<lparr> bs_paid := True \<rparr> else s)
                                     (billShares d) \<rparr>,
                [TxBegin, TxCommit])"
    by simp
next
  from share_paid_tx_events [of shareId d]
  show "\<exists>e evs. patch_bill_share_paid False shareId d = (Response 500 (ErrorBody e), d, evs)"
    by (elim disjE exE)
       (auto dest: patch_bill_share_paid_thrown [where commit_ok = False]
                   patch_bill_share_paid_commit_failed)
qed


theorem patch_bill_share_paid_settles_witness:
  "patch_bill_share_paid True 2 (split_db True False) =
     (Response 200 SuccessBody, settled_db,
      [TxBegin, Broadcast ''split_bill_completed'' (SplitBillCompletedData 1 1 1), TxCommit])
   \<and> patch_bill_share_paid True 1 (split_db False False) =
       (Response 200 SuccessBody, split_db True False, [TxBegin, TxCommit])
   \<and> (\<exists>e evs. patch_bill_share_paid False 2 (split_db True False) =
         (Response 500 (ErrorBody e), split_db True False, evs))"
proof -
  have f2: "find (\<lambda>s. bs_id s = 2) (billShares (split_db True False)) =
      Some \<lparr> bs_id = 2, bs_paymentId = 1, bs_customerName = ''Bob'', bs_amount = 1250,
             bs_paid = False \<rparr>"
    by (simp add: split_db_def)
  have f1: "find (\<lambda>s. bs_id s = 1) (billShares (split_db False False)) =
      Some \<lparr> bs_id = 1, bs_paymentId = 1, bs_customerName = ''Alice'', bs_amount = 1250,
             bs_paid = False \<rparr>"
    by (simp add: split_db_def)
  have a: "patch_bill_share_paid True 2 (split_db True False) =
     (Response 200 SuccessBody, settled_db,
      [TxBegin, Broadcast ''split_bill_completed'' (SplitBillCompletedData 1 1 1), TxCommit])"
    using patch_bill_share_paid_settles [OF f2, THEN conjunct1,
        of "\<lparr> p_id = 1, p_orderId = 1, p_tableId = 1, p_amount = 2500, p_method = ''cash'' \<rparr>"]
    by (simp add: split_db_def settled_db_def ordered_db_def)
  have b: "patch_bill_share_paid True 1 (split_db False False) =
       (Response 200 SuccessBody, split_db True False, [TxBegin, TxCommit])"
    using patch_bill_share_paid_settles [OF f1, THEN conjunct2, THEN conjunct1]
    by (simp add: split_db_def ordered_db_def)
  have c: "\<exists>e evs. patch_bill_share_paid False 2 (split_db True False) =
         (Response 500 (ErrorBody e), split_db True False, evs)"
    using patch_bill_share_paid_settles [OF f2, THEN conjunct2, THEN conjunct2] by simp
  from a b c show ?thesis by blast
qed

text \<open>
  C10. When the share and all shares of its payment are already paid, the payment's order
  is \<open>completed\<close> and its table is \<open>free\<close>, marking the share as paid once more does not
  fail: it answers 200, leaves the store exactly as it was, and runs the completion path
  again, broadcasting \<open>split_bill_completed\<close> again.
\<close>

theorem patch_bill_share_paid_again:
  assumes found: "find (\<lambda>s. bs_id s = shareId) (billShares d) = Some share"
    and pid: "bs_paymentId share \<noteq> 0"
    and paid: "\<forall>s\<in>set (billShares d).
                 bs_id s = shareId \<or> bs_paymentId s = bs_paymentId share \<longrightarrow> bs_paid s"
    and pay: "find (\<lambda>p. p_id p = bs_paymentId share) (payments d) = Some payment"
    and refs: "p_orderId payment \<noteq> 0" "p_tableId payment \<noteq> 0"
    and completed: "\<forall>r\<in>set (orders d). o_id r = p_orderId payment \<longrightarrow> o_status r = ''completed''"
    and free: "\<forall>t\<in>set (tables d). t_id t = p_tableId payment \<longrightarrow> t_status t = ''free''"
  shows "patch_bill_share_paid True shareId d =
     (Response 200 SuccessBody, d,
      [TxBegin,
       Broadcast ''split_bill_completed''
         (SplitBillCompletedData (bs_paymentId share) (p_orderId payment) (p_tableId payment)),
       TxCommit])"
proof -
  from paid have others: "\<forall>s\<in>set (billShares d).
                   bs_paymentId s = bs_paymentId share \<and> bs_id s \<noteq> shareId \<longrightarrow> bs_paid s"
    by blast
  from paid have own: "\<forall>s\<in>set (billShares d). bs_id s = shareId \<longrightarrow> bs_paid s"
    by blast
  have "share_paid_tx shareId d =
     (Inr (), d,
      [Broadcast ''split_bill_completed''
         (SplitBillCompletedData (bs_paymentId share) (p_orderId payment) (p_tableId payment))])"
    using share_paid_tx_completes [OF found pid others pay refs]
    by (simp add: map_paid_id [OF own] map_completed_id [OF completed] map_free_id [OF free])
  from patch_bill_share_paid_committed [OF this] show ?thesis by simp
qed

theorem patch_bill_share_paid_again_witness:
  "patch_bill_share_paid True 2 settled_db =
     (Response 200 SuccessBody, settled_db,
      [TxBegin, Broadcast ''split_bill_completed'' (SplitBillCompletedData 1 1 1), TxCommit])"
proof -
  have f: "find (\<lambda>s. bs_id s = 2) (billShares settled_db) =
      Some \<lparr> bs_id = 2, bs_paymentId = 1, bs_customerName = ''Bob'', bs_amount = 1250,
             bs_paid = True \<rparr>"
    by (simp add: settled_db_def split_db_def)
  have p: "find (\<lambda>p. p_id p =
        bs_paymentId \<lparr> bs_id = 2, bs_paymentId = 1, bs_customerName = ''Bob'', bs_amount = 1250,
             bs_paid = True \<rparr>) (payments settled_db) =
      Some \<lparr> p_id = 1, p_orderId = 1, p_tableId = 1, p_amount = 2500, p_method = ''cash'' \<rparr>"
    by (simp add: settled_db_def split_db_def)
  show ?thesis
    using patch_bill_share_paid_again [OF f _ _ p]
    by (simp add: settled_db_def split_db_def)
qed

text \<open>
  C4. The broadcast is not held back until the commit. On the example store where share 2
  is the last unpaid one, the trace of the handler has \<open>split_bill_completed\<close> before the
  commit; and when the commit fails the broadcast has been sent all the same, although the
  store is rolled back and the answer is 500. The call of \<open>broadcast\<close> stands inside the
  transaction callback, under the comment that it happens after the transaction commits.
\<close>

theorem split_bill_completed_is_broadcast_inside_the_transaction:
  "patch_bill_share_paid True 2 (split_db True False) =
     (Response 200 SuccessBody, settled_db,
      [TxBegin, Broadcast ''split_bill_completed'' (SplitBillCompletedData 1 1 1), TxCommit])
   \<and> patch_bill_share_paid False 2 (split_db True False) =
     (Response 500 (ErrorBody (DbError ''commit'')), split_db True False,
      [TxBegin, Broadcast ''split_bill_completed'' (SplitBillCompletedData 1 1 1), TxRollback])"
  by (simp add: patch_bill_share_paid_def transaction_def share_paid_tx_def Let_def
        split_db_def settled_db_def ordered_db_def)

subsection \<open>Missing entities\<close>

text \<open>
  A share that does not exist is answered with 500, an order that does not exist with 400 by
  the split-bill handler; the confirm handler answers a missing order with 404.
\<close>

lemma patch_bill_share_paid_missing:
  assumes "find (\<lambda>s. bs_id s = shareId) (billShares d) = None"
  shows "patch_bill_share_paid commit_ok shareId d =
     (Response 500 (ErrorBody (Text ''Share not found'')), d, [TxBegin, TxRollback])"
proof -
  from share_paid_tx_missing [OF assms] obtain d1 where
    "share_paid_tx shareId d = (Inl (Text ''Share not found''), d1, [])" ..
  from patch_bill_share_paid_thrown [OF this] show ?thesis by simp
qed

lemma post_split_bill_missing_order:
  assumes "shares \<noteq> []" and "getOrderRowById orderId d = None"
  shows "post_split_bill fp commit_ok orderId tableId method shares d =
     (Response 400 (ErrorBody (Text ''Order not found'')), d, [TxBegin, TxRollback])"
  using assms by (simp add: post_split_bill_def transaction_def split_bill_tx_def)

lemma patch_order_confirm_missing:
  assumes "getOrderRowById oid d = None"
  shows "fst (patch_order_confirm oid d) = Response 404 (ErrorBody (Text ''Order not found''))"
proof -
  have "find (\<lambda>r. o_id r = oid) rs = None \<Longrightarrow>
        find (\<lambda>r. o_id r = oid) (map (\<lambda>r. if o_id r = oid then r\<lparr> o_status := st \<rparr> else r) rs) = None"
    for rs st
    by (induction rs) (auto split: if_splits)
  from this [of "orders d" "''confirmed''"] assms
  have "find (\<lambda>r. o_id r = oid)
          (map (\<lambda>r. if o_id r = oid then r\<lparr> o_status := ''confirmed'' \<rparr> else r) (orders d)) = None"
    by (simp add: getOrderRowById_def)
  then show ?thesis
    by (simp add: patch_order_confirm_def updateOrderStatus_def getOrderRowById_def Let_def)
qed

text \<open>
  C8. Neither handler answers 404: on the example stores, marking the non-existent share 7
  as paid is answered with 500 and the message \<open>Share not found\<close>, and a split bill for the
  non-existent order 9 with 400 and the message \<open>Order not found\<close>.
\<close>

theorem missing_share_is_500_and_missing_order_is_400:
  "patch_bill_share_paid True 7 (split_db False False) =
     (Response 500 (ErrorBody (Text ''Share not found'')), split_db False False,
      [TxBegin, TxRollback])
   \<and> post_split_bill exact_comparison True 9 1 ''cash'' example_shares ordered_db =
     (Response 400 (ErrorBody (Text ''Order not found'')), ordered_db, [TxBegin, TxRollback])"
  by (simp add: patch_bill_share_paid_def transaction_def share_paid_tx_def Let_def
        post_split_bill_def split_bill_tx_def getOrderRowById_def example_shares_def
        split_db_def ordered_db_def)


subsection \<open>Broadcasts\<close>













subsection \<open>Who writes a total\<close>

text \<open>
  Confirming an order, updating an item status, recording a payment, creating a split bill
  and marking a share as paid leave every total as it was; creating an order appends one
  (see C6). Only the cancel handler rewrites the total of an existing order, and when the
  order named in the path exists it sets it to the sum over its items that are not
  cancelled.
\<close>

lemma map_total_status:
  "map o_total (map (\<lambda>r. if o_id r = k then r\<lparr> o_status := st \<rparr> else r) rs) = map o_total rs"
  by (induction rs) auto

lemma patch_bill_share_paid_db:
  "fst (snd (patch_bill_share_paid commit_ok shareId d)) = d
   \<or> (\<exists>d1. fst (snd (share_paid_tx shareId d)) = d1
        \<and> fst (snd (patch_bill_share_paid commit_ok shareId d)) = d1)"
  by (simp add: patch_bill_share_paid_def transaction_def split: prod.splits sum.splits)

lemma share_paid_tx_totals:
  "map o_total (orders (fst (snd (share_paid_tx shareId d)))) = map o_total (orders d)"
  by (simp add: share_paid_tx_def Let_def map_total_status split: option.splits)

lemma post_split_bill_orders:
  "orders (fst (snd (post_split_bill fp commit_ok orderId tableId method shares d))) = orders d"
  using post_split_bill_cases [of fp commit_ok orderId tableId "method" shares d]
proof (elim disjE exE conjE)
  fix e evs
  assume "post_split_bill fp commit_ok orderId tableId method shares d =
            (Response 400 (ErrorBody e), d, evs)"
  then show ?thesis by simp
next
  fix payment created d' evs0
  assume tx: "split_bill_tx fp orderId tableId method shares d = (Inr (payment, created), d', evs0)"
    and r: "post_split_bill fp commit_ok orderId tableId method shares d =
            (Response 201 (SplitBillBody payment created), d', TxBegin # evs0 @ [TxCommit])"
  from split_bill_tx_Inr [OF tx] obtain validated where
    "d' = snd (insert_shares (nextPaymentId d) validated
                 (d\<lparr> payments := payments d @ [payment],
                     nextPaymentId := Suc (nextPaymentId d) \<rparr>))"
    by blast
  then have "orders d' = orders d"
    using insert_shares_frame [of "nextPaymentId d" validated
        "d\<lparr> payments := payments d @ [payment], nextPaymentId := Suc (nextPaymentId d) \<rparr>"]
    by simp
  with r show ?thesis by simp
qed

lemma totals_kept_by_other_operations:
  "map o_total (orders (fst (snd (patch_order_confirm orderId d)))) = map o_total (orders d)
   \<and> orders (fst (snd (patch_order_item_status orderId itemId status d))) = orders d
   \<and> map o_total (orders (fst (snd (post_payments isSplitBill orderId tableId amount method d))))
       = map o_total (orders d)
   \<and> orders (fst (snd (post_split_bill fp commit_ok orderId tableId method shares d))) = orders d
   \<and> map o_total (orders (fst (snd (patch_bill_share_paid commit_ok shareId d))))
       = map o_total (orders d)"
proof (intro conjI)
  show "map o_total (orders (fst (snd (patch_order_confirm orderId d)))) = map o_total (orders d)"
    by (simp add: patch_order_confirm_def updateOrderStatus_def Let_def map_total_status
          split: option.splits)
  show "orders (fst (snd (patch_order_item_status orderId itemId status d))) = orders d"
    by (rule patch_order_item_status_keeps_orders)
  show "map o_total (orders (fst (snd (post_payments isSplitBill orderId tableId amount method d))))
       = map o_total (orders d)"
    by (simp add: post_payments_def insert_payment_def updateTableStatus_def
          updateOrderStatus_def Let_def map_total_status split: sum.splits prod.splits)
  show "orders (fst (snd (post_split_bill fp commit_ok orderId tableId method shares d))) = orders d"
    by (rule post_split_bill_orders)
  show "map o_total (orders (fst (snd (patch_bill_share_paid commit_ok shareId d))))
       = map o_total (orders d)"
    using patch_bill_share_paid_db [of commit_ok shareId d] share_paid_tx_totals [of shareId d]
    by auto
qed


lemma find_Some_id: "find (\<lambda>r. o_id r = k) rs = Some r \<Longrightarrow> o_id r = k"
  by (induction rs) (auto split: if_splits)

lemma updated_total:
  assumes "r' \<in> set (map (\<lambda>r. if o_id r = k then r\<lparr> o_total := t \<rparr> else r) rs)"
    and "o_id r' = k"
  shows "o_total r' = t"
proof -
  from assms(1) have "r' \<in> (\<lambda>r. if o_id r = k then r\<lparr> o_total := t \<rparr> else r) ` set rs"
    by (simp only: set_map)
  then obtain r where r: "r' = (if o_id r = k then r\<lparr> o_total := t \<rparr> else r)"
    by (rule imageE)
  show ?thesis
  proof (cases "o_id r = k")
    case True
    with r show ?thesis by simp
  next
    case False
    with r have "r' = r" by simp
    with False assms(2) show ?thesis by simp
  qed
qed

lemma patch_order_item_cancel_recomputes_total:
  assumes found: "getOrderItemById itemId d = Some item"
    and st: "oi_status item \<in> set [''queued'', ''pending'']"
    and row: "getOrderRowById orderId d = Some r"
  shows "\<forall>r'\<in>set (orders (fst (snd (patch_order_item_cancel orderId itemId d)))).
           o_id r' = orderId \<longrightarrow>
           o_total r' = active_total orderId (fst (snd (patch_order_item_cancel orderId itemId d)))"
proof -
  let ?d1 = "d\<lparr> orderItems := map (\<lambda>i. if oi_id i = itemId then i\<lparr> oi_status := ''cancelled'' \<rparr> else i)
                              (orderItems d) \<rparr>"
  let ?tot = "foldl (\<lambda>acc i. acc + oi_price i * oi_quantity i) 0
                (filter (\<lambda>i. oi_status i \<noteq> ''cancelled'')
                   (filter (\<lambda>i. oi_orderId i = orderId) (orderItems ?d1)))"
  let ?d2 = "updateOrderTotal orderId ?tot ?d1"
  have id: "o_id r = orderId"
    using row by (auto simp: getOrderRowById_def dest: find_Some_id)
  have row1: "getOrderRowById orderId ?d1 = Some r"
    using row by (simp add: getOrderRowById_def)
  have res: "fst (snd (patch_order_item_cancel orderId itemId d)) = ?d2"
    using found st row1 id
    by (simp add: patch_order_item_cancel_def cancel_update [OF found] getOrderById_def Let_def)
  have tot: "?tot = active_total orderId ?d2"
    by (simp add: foldl_add_sum_list active_total_def updateOrderTotal_def conj_commute)
  have o2: "orders ?d2 =
      map (\<lambda>r. if o_id r = orderId then r\<lparr> o_total := ?tot \<rparr> else r) (orders ?d1)"
    by (simp add: updateOrderTotal_def)
  have "\<forall>r'\<in>set (orders ?d2). o_id r' = orderId \<longrightarrow> o_total r' = ?tot"
    unfolding o2 by (intro ballI impI) (rule updated_total)
  then show ?thesis unfolding res tot [symmetric] .
qed

end
